theory Spec2Isabelle
  imports Complex_Main
begin

section \<open>JavaScript values and string helpers\<close>

text \<open>
  The component is a React function component (\<^verbatim>\<open>ClutchConsentForm\<close>). Two versions of it
  are in the repository: the typed one (\<^verbatim>\<open>src/unnamed/part_000\<close>), whose functions keep
  their source names here, and the earlier untyped one
  (\<^verbatim>\<open>src/app/components/ClutchConsentForm.tsx\<close>), whose functions carry the suffix
  \<open>_components\<close> where the two differ.

  A value produced by \<^verbatim>\<open>JSON.parse\<close> is a \<open>json\<close>. TypeScript's annotations are erased
  at run time and \<^verbatim>\<open>JSON.parse(...) as Partial<ExtractedPayload>\<close> is an unchecked cast, so
  a form field filled by the extraction holds whatever JSON value the response carried.
  Strings are lists of code units below 256.
\<close>

datatype json =
    JNull
  | JBool bool
  | JNum rat
  | JStr string
  | JArr "json list"
  | JObj "(string \<times> json) list"

datatype js_error = TypeError | SyntaxError | Error string

text \<open>
  \<^verbatim>\<open>v.k\<close> for a value \<open>v\<close> that is not \<^verbatim>\<open>null\<close> and a key \<open>k\<close> that no prototype defines
  (the keys read by the component are \<^verbatim>\<open>fullName\<close>, \<^verbatim>\<open>address\<close>, \<^verbatim>\<open>year\<close>, \<^verbatim>\<open>makeModel\<close>,
  \<^verbatim>\<open>vin\<close>, \<^verbatim>\<open>content\<close>, \<^verbatim>\<open>type\<close>, \<^verbatim>\<open>text\<close>): \<open>None\<close> is \<^verbatim>\<open>undefined\<close>.
  Reading a property of \<^verbatim>\<open>null\<close> throws; the callers test for \<open>JNull\<close> first.
\<close>

fun getProp :: "json \<Rightarrow> string \<Rightarrow> json option" where
  "getProp (JObj kvs) k = map_of kvs k"
| "getProp _ k = None"

text \<open>\<^verbatim>\<open>a ?? b\<close>: the right operand only when the left one is \<^verbatim>\<open>undefined\<close> or \<^verbatim>\<open>null\<close>.\<close>

fun nullish :: "json option \<Rightarrow> json \<Rightarrow> json" where
  "nullish None d = d"
| "nullish (Some JNull) d = d"
| "nullish (Some v) d = v"

text \<open>JavaScript truthiness of a JSON value, and \<^verbatim>\<open>a || b\<close>.\<close>

fun truthy :: "json \<Rightarrow> bool" where
  "truthy JNull = False"
| "truthy (JBool b) = b"
| "truthy (JNum r) = (r \<noteq> 0)"
| "truthy (JStr s) = (s \<noteq> [])"
| "truthy (JArr _) = True"
| "truthy (JObj _) = True"

fun orElse :: "json option \<Rightarrow> json \<Rightarrow> json" where
  "orElse None d = d"
| "orElse (Some v) d = (if truthy v then v else d)"

text \<open>
  White space as \<^verbatim>\<open>String.prototype.trim\<close> and the regular expression class \<^verbatim>\<open>\s\<close> read it,
  among the code units below 256: tab, line feed, vertical tab, form feed, carriage return,
  space and no-break space.
\<close>

definition isSpace :: "char \<Rightarrow> bool" where
  "isSpace c = (c \<in> set [CHR 0x09, CHR 0x0A, CHR 0x0B, CHR 0x0C, CHR 0x0D, CHR 0x20, CHR 0xA0])"

definition trim :: "string \<Rightarrow> string" where
  "trim s = rev (dropWhile isSpace (rev (dropWhile isSpace s)))"

text \<open>\<^verbatim>\<open>s.replace(/\s+/g, '_')\<close>: every maximal run of white space becomes one underscore.\<close>

function collapseSpaces :: "string \<Rightarrow> string" where
  "collapseSpaces [] = []"
| "collapseSpaces (c # cs) =
     (if isSpace c then CHR ''_'' # collapseSpaces (dropWhile isSpace cs)
      else c # collapseSpaces cs)"
  by pat_completeness auto
termination
  by (relation "measure length") (auto simp: less_Suc_eq_le length_dropWhile_le)

text \<open>\<^verbatim>\<open>parts.join(sep)\<close> on strings.\<close>

fun joinWith :: "string \<Rightarrow> string list \<Rightarrow> string" where
  "joinWith sep [] = []"
| "joinWith sep [x] = x"
| "joinWith sep (x # y # ys) = x @ sep @ joinWith sep (y # ys)"

section \<open>The form record and the component state\<close>

text \<open>
  \<^verbatim>\<open>FormDataState\<close>. The five text fields can receive JSON values from the extraction; \<open>date\<close>
  is only ever assigned strings (the initial value and the date input).
\<close>

record FormDataState =
  fullName :: json
  address :: json
  year :: json
  makeModel :: json
  vin :: json
  date :: string

datatype field = FullName | Address | Year | MakeModel | Vin | DateField

record File =
  fileName :: string
  fileType :: string

text \<open>The five \<^verbatim>\<open>useState\<close> cells of the component.\<close>

record ui_state =
  file_state :: "File option"
  extracting :: bool
  formData :: FormDataState
  extractionComplete :: bool
  error :: string

text \<open>
  What the component asks of its collaborators, in the order it asks: the trace of a handler.
\<close>

datatype event =
    ExtractionInvoked File
  | AnthropicRequest string string string
  | FileInputReset
  | VinLookupRequest string
  | Download string

text \<open>An awaited promise: resolved with a value, or rejected.\<close>

datatype 'a promise = Resolved 'a | Rejected

text \<open>
  A \<^verbatim>\<open>fetch\<close> response: \<^verbatim>\<open>response.ok\<close> and the outcome of \<^verbatim>\<open>response.json()\<close>
  (\<open>None\<close> when the body is not JSON and the promise rejects).
\<close>

record 'b http_response =
  ok :: bool
  body :: "'b option"

section \<open>VIN enrichment\<close>

text \<open>
  The lookup response at its declared type
  \<^verbatim>\<open>{ Results?: Array<{ Variable?: string; Value?: string | null }> }\<close>;
  \<open>None\<close> in \<open>Value\<close> is \<^verbatim>\<open>null\<close> or an absent key.
\<close>

record vin_item =
  Variable :: "string option"
  Value :: "string option"

record vin_data =
  Results :: "vin_item list option"

text \<open>\<^verbatim>\<open>results.find((item) => item.Variable === variable)?.Value ?? ''\<close>\<close>

definition findValue :: "vin_item list \<Rightarrow> string \<Rightarrow> string" where
  "findValue results variable =
     (case find (\<lambda>item. Variable item = Some variable) results of
        None \<Rightarrow> []
      | Some item \<Rightarrow> (case Value item of None \<Rightarrow> [] | Some v \<Rightarrow> v))"

text \<open>\<^verbatim>\<open>!x || x === 'Not Applicable'\<close>\<close>

definition absent :: "string \<Rightarrow> bool" where
  "absent x = (x = [] \<or> x = ''Not Applicable'')"

text \<open>The model candidate after the two fallback steps of \<^verbatim>\<open>decodeVIN\<close>.\<close>

definition vinModel :: "vin_item list \<Rightarrow> string" where
  "vinModel results =
     (let model = findValue results ''Model'';
          model = (if absent model then findValue results ''Series'' else model);
          model = (if absent model then findValue results ''Trim'' else model)
      in model)"

definition makeModelStr :: "vin_item list \<Rightarrow> string" where
  "makeModelStr results =
     (let make = findValue results ''Make'';
          model = vinModel results;
          s = (if \<not> absent make then make else []);
          s = (if \<not> absent model then (if s \<noteq> [] then s @ '' '' @ model else model) else s)
      in s)"

text \<open>The state updater \<^verbatim>\<open>decodeVIN\<close> passes to \<^verbatim>\<open>setFormData\<close>.\<close>

definition vinUpdate :: "string \<Rightarrow> vin_item list \<Rightarrow> FormDataState \<Rightarrow> FormDataState" where
  "vinUpdate v results prev =
     (let year' = findValue results ''Model Year'';
          mm = makeModelStr results
      in prev\<lparr> vin := JStr v,
               makeModel := (if mm \<noteq> [] then JStr mm else makeModel prev),
               year := (if \<not> absent year' then JStr year' else year prev) \<rparr>)"

text \<open>
  \<^verbatim>\<open>decodeVIN\<close>: the request is issued first; a rejected \<^verbatim>\<open>fetch\<close>, a response that is not
  \<^verbatim>\<open>ok\<close> and a body that is not JSON leave the state as it is (the \<^verbatim>\<open>catch\<close> only logs);
  an absent \<^verbatim>\<open>Results\<close> is read as the empty list. The state passed in is the state at the
  time the response is handled.
\<close>

text \<open>\<^verbatim>\<open>data.Results ?? []\<close>\<close>

definition resultsOf :: "vin_data \<Rightarrow> vin_item list" where
  "resultsOf data = (case Results data of None \<Rightarrow> [] | Some rs \<Rightarrow> rs)"

definition decodeVIN ::
  "vin_data http_response promise \<Rightarrow> string \<Rightarrow> ui_state \<Rightarrow> event list \<times> ui_state" where
  "decodeVIN response v st =
     ([VinLookupRequest v],
      (case response of
         Rejected \<Rightarrow> st
       | Resolved r \<Rightarrow>
           if \<not> ok r then st
           else (case body r of
                   None \<Rightarrow> st
                 | Some data \<Rightarrow>
                     (let results = resultsOf data
                      in st\<lparr> formData := vinUpdate v results (formData st) \<rparr>))))"

text \<open>\<^verbatim>\<open>setFormData((prev) => ({ ...prev, [field]: value }))\<close>\<close>

fun setField :: "field \<Rightarrow> string \<Rightarrow> FormDataState \<Rightarrow> FormDataState" where
  "setField FullName value prev = prev\<lparr> fullName := JStr value \<rparr>"
| "setField Address value prev = prev\<lparr> address := JStr value \<rparr>"
| "setField Year value prev = prev\<lparr> year := JStr value \<rparr>"
| "setField MakeModel value prev = prev\<lparr> makeModel := JStr value \<rparr>"
| "setField Vin value prev = prev\<lparr> vin := JStr value \<rparr>"
| "setField DateField value prev = prev\<lparr> date := value \<rparr>"

text \<open>
  \<^verbatim>\<open>handleInputChange\<close>: the edit is stored, then a 17-character VIN starts \<^verbatim>\<open>decodeVIN\<close>.
  The run modelled is the one where the response is handled before the next event.
\<close>

definition handleInputChange ::
  "vin_data http_response promise \<Rightarrow> field \<Rightarrow> string \<Rightarrow> ui_state \<Rightarrow> event list \<times> ui_state" where
  "handleInputChange response fld value st =
     (let st1 = st\<lparr> formData := setField fld value (formData st) \<rparr>
      in if fld = Vin \<and> length value = 17 then decodeVIN response value st1
         else ([], st1))"

section \<open>Upload validation and the extraction pipeline\<close>

definition allowedTypes :: "string list" where
  "allowedTypes = [''application/pdf'', ''image/jpeg'', ''image/jpg'', ''image/png'']"

definition isAllowedMime :: "string \<Rightarrow> bool" where
  "isAllowedMime t = (t \<in> set allowedTypes)"

text \<open>\<^verbatim>\<open>const extractEnabled = useMemo(() => true, [])\<close>\<close>

definition extractEnabled :: bool where
  "extractEnabled = True"

definition uploadErrorMessage :: string where
  "uploadErrorMessage = ''Please upload a PDF or image file (JPG/PNG)''"

definition extractionErrorMessage :: string where
  "extractionErrorMessage =
     ''Could not extract information from this file. Please fill the form manually below.''"

text \<open>
  What the \<^verbatim>\<open>FileReader\<close> did: it failed, or it loaded and \<^verbatim>\<open>reader.result\<close> is a string
  (\<open>Some\<close>) or something else (\<open>None\<close>).
\<close>

datatype reader_outcome = ReaderFailed | ReaderLoaded "string option"

text \<open>\<^verbatim>\<open>s.split(sep)\<close> for a one-character separator.\<close>

fun splitOn :: "char \<Rightarrow> string \<Rightarrow> string list" where
  "splitOn sep [] = [[]]"
| "splitOn sep (c # cs) =
     (if c = sep then [] # splitOn sep cs
      else (case splitOn sep cs of [] \<Rightarrow> [[c]] | p # ps \<Rightarrow> (c # p) # ps))"

definition fileToBase64 :: "reader_outcome \<Rightarrow> js_error + string" where
  "fileToBase64 r =
     (case r of
        ReaderFailed \<Rightarrow> Inl (Error ''FileReader failed'')
      | ReaderLoaded None \<Rightarrow> Inl (Error ''Unexpected FileReader result'')
      | ReaderLoaded (Some result) \<Rightarrow>
          (let parts = splitOn CHR '','' result
           in if length parts < 2 then Inl (Error ''Invalid base64 data URL'')
              else Inr (parts ! 1)))"

text \<open>The collaborators of one extraction: the file reader and the AI endpoint.\<close>

record extraction_env =
  reader :: reader_outcome
  fetched :: "json http_response promise"

text \<open>
  The filter of \<^verbatim>\<open>data.content\<close>:
  \<^verbatim>\<open>item.type === 'text' && typeof item.text === 'string'\<close>, for an item that is not
  \<^verbatim>\<open>null\<close>.
\<close>

definition isTextItem :: "json \<Rightarrow> bool" where
  "isTextItem item =
     (getProp item ''type'' = Some (JStr ''text'') \<and>
      (case getProp item ''text'' of Some (JStr t) \<Rightarrow> True | _ \<Rightarrow> False))"

definition itemText :: "json \<Rightarrow> string" where
  "itemText item = (case getProp item ''text'' of Some (JStr t) \<Rightarrow> t | _ \<Rightarrow> [])"

text \<open>
  \<^verbatim>\<open>data.content?.filter(...).map(...).join('\n') ?? ''\<close>. Reading \<^verbatim>\<open>content\<close> of \<^verbatim>\<open>null\<close>
  throws; an absent or \<^verbatim>\<open>null\<close> \<^verbatim>\<open>content\<close> gives the empty string; a \<^verbatim>\<open>content\<close>
  that is not an array has no \<^verbatim>\<open>filter\<close> function, and the filter throws on a \<^verbatim>\<open>null\<close> item.
\<close>

definition textContent :: "json \<Rightarrow> js_error + string" where
  "textContent data =
     (case data of
        JNull \<Rightarrow> Inl TypeError
      | _ \<Rightarrow>
          (case getProp data ''content'' of
             None \<Rightarrow> Inr []
           | Some JNull \<Rightarrow> Inr []
           | Some (JArr items) \<Rightarrow>
               if JNull \<in> set items then Inl TypeError
               else Inr (joinWith [CHR 0x0A] (map itemText (filter isTextItem items)))
           | Some _ \<Rightarrow> Inl TypeError))"

text \<open>
  The \<^verbatim>\<open>try\<close> block of \<^verbatim>\<open>extractInformation\<close> up to the text of the response: every
  \<open>Inl\<close> is a value thrown there (the message of the API error, which carries the status,
  is only logged).
\<close>

definition requestExtraction :: "extraction_env \<Rightarrow> File \<Rightarrow> event list \<times> (js_error + string)" where
  "requestExtraction env f =
     (case fileToBase64 (reader env) of
        Inl e \<Rightarrow> ([], Inl e)
      | Inr base64Data \<Rightarrow>
          (let mediaType = fileType f;
               sourceType = (if mediaType = ''application/pdf'' then ''document'' else ''image'')
           in ([AnthropicRequest sourceType mediaType base64Data],
               (case fetched env of
                  Rejected \<Rightarrow> Inl TypeError
                | Resolved r \<Rightarrow>
                    if \<not> ok r then Inl (Error ''API error'')
                    else (case body r of
                            None \<Rightarrow> Inl SyntaxError
                          | Some data \<Rightarrow>
                              (case textContent data of
                                 Inl e \<Rightarrow> Inl e
                               | Inr t \<Rightarrow>
                                   if trim t = [] then Inl (Error ''No text content extracted'')
                                   else Inr t))))))"

text \<open>Three backticks, the code-fence marker.\<close>

definition fence :: string where
  "fence = replicate 3 (CHR 0x60)"

text \<open>
  \<^verbatim>\<open>s.replace(/```json|```/g, '')\<close>: from the left, a fence followed by \<^verbatim>\<open>json\<close> is removed,
  else a fence, else the character is kept; the scan goes on after what was removed.
\<close>

function stripFences :: "string \<Rightarrow> string" where
  "stripFences [] = []"
| "stripFences (c # cs) =
     (if take 7 (c # cs) = fence @ ''json'' then stripFences (drop 6 cs)
      else if take 3 (c # cs) = fence then stripFences (drop 2 cs)
      else c # stripFences cs)"
  by pat_completeness auto
termination
  by (relation "measure length") auto

definition cleanJson :: "string \<Rightarrow> string" where
  "cleanJson t = trim (stripFences t)"

text \<open>
  \<^verbatim>\<open>s.match(/\{[\s\S]*\}/)\<close>: the match starts at the first opening brace and, the star
  being greedy, ends at the last closing brace after it; no match when there is none.
\<close>

definition matchObject :: "string \<Rightarrow> string option" where
  "matchObject s =
     (let t = dropWhile (\<lambda>c. c \<noteq> CHR ''{'') s
      in if t = [] then None
         else (let inner = rev (dropWhile (\<lambda>c. c \<noteq> CHR ''}'') (rev (tl t)))
               in if inner = [] then None else Some (CHR ''{'' # inner)))"

text \<open>
  The parse with its salvage step. \<^verbatim>\<open>JSON.parse\<close> belongs to the platform: it is the
  parameter \<open>JSON_parse\<close>, \<open>None\<close> when it throws a \<^verbatim>\<open>SyntaxError\<close>.
\<close>

definition parseExtracted :: "(string \<Rightarrow> json option) \<Rightarrow> string \<Rightarrow> js_error + json" where
  "parseExtracted JSON_parse cleaned =
     (case JSON_parse cleaned of
        Some v \<Rightarrow> Inr v
      | None \<Rightarrow>
          (case matchObject cleaned of
             None \<Rightarrow> Inl (Error ''Could not parse JSON from extracted text'')
           | Some m \<Rightarrow> (case JSON_parse m of None \<Rightarrow> Inl SyntaxError | Some v \<Rightarrow> Inr v)))"

text \<open>
  The state updater the extraction passes to \<^verbatim>\<open>setFormData\<close>:
  \<^verbatim>\<open>fullName: extracted.fullName ?? prev.fullName\<close> and so on, \<^verbatim>\<open>date: prev.date\<close>.
  It reads properties of \<open>extracted\<close>, which throws when \<open>extracted\<close> is \<^verbatim>\<open>null\<close>.
\<close>

definition mergeExtracted :: "json \<Rightarrow> FormDataState \<Rightarrow> js_error + FormDataState" where
  "mergeExtracted extracted prev =
     (case extracted of
        JNull \<Rightarrow> Inl TypeError
      | _ \<Rightarrow>
          Inr \<lparr> fullName = nullish (getProp extracted ''fullName'') (fullName prev),
                address = nullish (getProp extracted ''address'') (address prev),
                year = nullish (getProp extracted ''year'') (year prev),
                makeModel = nullish (getProp extracted ''makeModel'') (makeModel prev),
                vin = nullish (getProp extracted ''vin'') (vin prev),
                date = date prev \<rparr>)"

text \<open>
  \<^verbatim>\<open>extractInformation\<close>. Whatever is thrown in the \<^verbatim>\<open>try\<close> block is caught and replaced
  by the one message; \<^verbatim>\<open>finally\<close> clears \<^verbatim>\<open>extracting\<close>. React runs a state updater
  when it renders, outside the \<^verbatim>\<open>try\<close> block: what the updater throws is not caught by
  the handler, and the result is \<open>Inl\<close>. The run modelled is the one with no other
  event between the upload and the answer; the updater itself, \<open>mergeExtracted\<close>, takes
  whatever form record is current when it runs.
\<close>

definition extractInformation ::
  "(string \<Rightarrow> json option) \<Rightarrow> extraction_env \<Rightarrow> File \<Rightarrow> ui_state
     \<Rightarrow> event list \<times> (js_error + ui_state)" where
  "extractInformation JSON_parse env f st =
     (let st1 = st\<lparr> extracting := True, error := [] \<rparr>;
          (evs, r) = requestExtraction env f;
          extracted = (case r of Inl e \<Rightarrow> Inl e
                       | Inr t \<Rightarrow> parseExtracted JSON_parse (cleanJson t))
      in (ExtractionInvoked f # evs,
          (case extracted of
             Inl e \<Rightarrow> Inr (st1\<lparr> error := extractionErrorMessage, extracting := False \<rparr>)
           | Inr v \<Rightarrow>
               (case mergeExtracted v (formData st1) of
                  Inl e \<Rightarrow> Inl e
                | Inr fd \<Rightarrow>
                    Inr (st1\<lparr> formData := fd, extractionComplete := True,
                              extracting := False \<rparr>)))))"

text \<open>
  \<^verbatim>\<open>handleFileUpload\<close>; \<open>uploaded\<close> is \<^verbatim>\<open>e.target.files?.[0] ?? null\<close>. On acceptance the
  file input is reset before the extraction is awaited.
\<close>

definition handleFileUpload ::
  "(string \<Rightarrow> json option) \<Rightarrow> extraction_env \<Rightarrow> File option \<Rightarrow> ui_state
     \<Rightarrow> event list \<times> (js_error + ui_state)" where
  "handleFileUpload JSON_parse env uploaded st =
     (case uploaded of
        None \<Rightarrow> ([], Inr st)
      | Some uploadedFile \<Rightarrow>
          if \<not> isAllowedMime (fileType uploadedFile)
          then ([], Inr (st\<lparr> error := uploadErrorMessage, file_state := None,
                             extractionComplete := False \<rparr>))
          else (let st1 = st\<lparr> file_state := Some uploadedFile, error := [],
                              extractionComplete := False \<rparr>
                in if extractEnabled
                   then (let (evs, r) = extractInformation JSON_parse env uploadedFile st1
                         in (FileInputReset # evs, r))
                   else ([FileInputReset], Inr st1)))"

section \<open>The document renderer\<close>

definition months :: "string list" where
  "months = [''January'', ''February'', ''March'', ''April'', ''May'', ''June'', ''July'',
             ''August'', ''September'', ''October'', ''November'', ''December'']"

text \<open>
  \<^verbatim>\<open>new Date(formData.date)\<close> and the getters belong to the platform; they are modelled from
  ECMA-262. A date-only string \<^verbatim>\<open>YYYY-MM-DD\<close> is read as midnight UTC of that day
  (Date.parse: "when the UTC offset representation is absent, date-only forms are
  interpreted as a UTC time"); \<^verbatim>\<open>getFullYear\<close>, \<^verbatim>\<open>getMonth\<close> and \<^verbatim>\<open>getDate\<close> read the fields
  of the local time \<open>t + LocalTZA\<close>. The strings the date input and \<^verbatim>\<open>todayISO\<close> yield are
  valid dates of this form and the empty string; any other string is read here as an
  invalid date.
\<close>

definition isDigit :: "char \<Rightarrow> bool" where
  "isDigit c = (48 \<le> (of_char c :: nat) \<and> (of_char c :: nat) \<le> 57)"

definition decimal :: "string \<Rightarrow> int option" where
  "decimal s =
     (if s \<noteq> [] \<and> list_all isDigit s
      then Some (foldl (\<lambda>n c. 10 * n + (int (of_char c) - 48)) 0 s)
      else None)"

definition isLeap :: "int \<Rightarrow> bool" where
  "isLeap y = (y mod 4 = 0 \<and> (y mod 100 \<noteq> 0 \<or> y mod 400 = 0))"

definition daysInMonth :: "int \<Rightarrow> int \<Rightarrow> int" where
  "daysInMonth y m =
     (if m = 2 then (if isLeap y then 29 else 28)
      else if m = 4 \<or> m = 6 \<or> m = 9 \<or> m = 11 then 30 else 31)"

definition parseISODate :: "string \<Rightarrow> (int \<times> int \<times> int) option" where
  "parseISODate s =
     (if length s = 10 \<and> s ! 4 = CHR ''-'' \<and> s ! 7 = CHR ''-''
      then (case (decimal (take 4 s), decimal (take 2 (drop 5 s)), decimal (drop 8 s)) of
              (Some y, Some m, Some d) \<Rightarrow>
                if 1 \<le> m \<and> m \<le> 12 \<and> 1 \<le> d \<and> d \<le> daysInMonth y m then Some (y, m, d)
                else None
            | _ \<Rightarrow> None)
      else None)"

text \<open>
  Day number since 1970-01-01 of a date of the proleptic Gregorian calendar, and back
  (the calendar of ECMA-262's \<open>MakeDay\<close>, \<open>YearFromTime\<close>, \<open>MonthFromTime\<close> and
  \<open>DateFromTime\<close>). Division on \<open>int\<close> rounds down, as \<open>floor\<close> does there.
\<close>

definition daysFromCivil :: "int \<Rightarrow> int \<Rightarrow> int \<Rightarrow> int" where
  "daysFromCivil y m d =
     (let y1 = (if m \<le> 2 then y - 1 else y);
          era = y1 div 400;
          yoe = y1 - era * 400;
          doy = (153 * (if m > 2 then m - 3 else m + 9) + 2) div 5 + d - 1;
          doe = yoe * 365 + yoe div 4 - yoe div 100 + doy
      in era * 146097 + doe - 719468)"

definition civilFromDays :: "int \<Rightarrow> int \<times> int \<times> int" where
  "civilFromDays z0 =
     (let z = z0 + 719468;
          era = z div 146097;
          doe = z - era * 146097;
          yoe = (doe - doe div 1460 + doe div 36524 - doe div 146096) div 365;
          doy = doe - (365 * yoe + yoe div 4 - yoe div 100);
          mp = (5 * doy + 2) div 153;
          d = doy - (153 * mp + 2) div 5 + 1;
          m = (if mp < 10 then mp + 3 else mp - 9);
          y = yoe + era * 400
      in (if m \<le> 2 then y + 1 else y, m, d))"

definition msPerDay :: int where
  "msPerDay = 86400000"

text \<open>
  \<open>(getFullYear(), getMonth(), getDate())\<close> of \<^verbatim>\<open>new Date(s)\<close> in a zone whose local time
  is \<open>tza\<close> milliseconds ahead of UTC at that instant; \<open>None\<close> for an invalid date.
\<close>

definition dateFields :: "int \<Rightarrow> string \<Rightarrow> (int \<times> int \<times> int) option" where
  "dateFields tza s =
     (case parseISODate s of
        None \<Rightarrow> None
      | Some (y, m, d) \<Rightarrow>
          (let t = daysFromCivil y m d * msPerDay;
               (y', m', d') = civilFromDays ((t + tza) div msPerDay)
           in Some (y', m' - 1, d')))"

text \<open>Decimal digits of an integer, as string concatenation prints a number.\<close>

fun showNat :: "nat \<Rightarrow> string" where
  "showNat n =
     (if n < 10 then [char_of (48 + n)]
      else showNat (n div 10) @ [char_of (48 + n mod 10)])"

definition showInt :: "int \<Rightarrow> string" where
  "showInt i = (if i < 0 then CHR ''-'' # showNat (nat (- i)) else showNat (nat i))"

text \<open>
  \<^verbatim>\<open>`${months[dateObj.getMonth()]} ${dateObj.getDate()}, ${dateObj.getFullYear()}`\<close>;
  the getters of an invalid date give \<^verbatim>\<open>NaN\<close>, and \<^verbatim>\<open>months[NaN]\<close> is \<^verbatim>\<open>undefined\<close>.
\<close>

definition formattedDate :: "int \<Rightarrow> string \<Rightarrow> string" where
  "formattedDate tza s =
     (case dateFields tza s of
        None \<Rightarrow> ''undefined NaN, NaN''
      | Some (y, mi, d) \<Rightarrow>
          (if 0 \<le> mi \<and> mi < 12 then months ! nat mi else ''undefined'')
            @ '' '' @ showInt d @ '', '' @ showInt y)"

text \<open>
  \<^verbatim>\<open>`Authorization_Letter_${formData.fullName.trim().replace(/\s+/g, '_') || 'Customer'}.jpg`\<close>
\<close>

definition downloadName :: "string \<Rightarrow> string" where
  "downloadName n =
     ''Authorization_Letter_''
       @ (let name = collapseSpaces (trim n) in if name \<noteq> [] then name else ''Customer'')
       @ ''.jpg''"

text \<open>
  The collaborators of one export: the zone offset of the browser, whether the canvas
  gives a 2D context, and whether \<^verbatim>\<open>toBlob\<close> produced a blob.
\<close>

record render_env =
  localTZA :: int
  canvasContext :: bool
  blobCreated :: bool

datatype drawn = DateText string

text \<open>
  \<^verbatim>\<open>generatePDF\<close>. Of the fixed letter drawn on the canvas the model keeps the date line.
  A missing context is thrown and caught inside the function; the download callback runs
  later, outside the \<^verbatim>\<open>try\<close> block, and calls \<^verbatim>\<open>trim\<close> on the name, which throws when
  the name is not a string.
\<close>

definition generatePDF ::
  "render_env \<Rightarrow> ui_state \<Rightarrow> drawn list \<times> event list \<times> (js_error + ui_state)" where
  "generatePDF env st =
     (if \<not> canvasContext env
      then ([], [], Inr (st\<lparr> error := ''Failed to generate image: Canvas not supported'' \<rparr>))
      else (let canvas = [DateText (formattedDate (localTZA env) (date (formData st)))]
            in if \<not> blobCreated env then (canvas, [], Inr st)
               else (case fullName (formData st) of
                       JStr n \<Rightarrow> (canvas, [Download (downloadName n)], Inr st)
                     | _ \<Rightarrow> (canvas, [], Inl TypeError))))"

text \<open>\<^verbatim>\<open>disabled={!formData.fullName.trim()}\<close> on the export button.\<close>

definition exportDisabled :: "FormDataState \<Rightarrow> js_error + bool" where
  "exportDisabled fd = (case fullName fd of JStr n \<Rightarrow> Inr (trim n = []) | _ \<Rightarrow> Inl TypeError)"

text \<open>A click on the export button: a disabled button does not call its handler.\<close>

definition clickExport ::
  "render_env \<Rightarrow> ui_state \<Rightarrow> drawn list \<times> event list \<times> (js_error + ui_state)" where
  "clickExport env st =
     (case exportDisabled (formData st) of
        Inl e \<Rightarrow> ([], [], Inl e)
      | Inr disabled \<Rightarrow> if disabled then ([], [], Inr st) else generatePDF env st)"

section \<open>The earlier version of the component\<close>

text \<open>
  \<^verbatim>\<open>src/app/components/ClutchConsentForm.tsx\<close>, where it differs from the typed version.
  Its merge uses \<^verbatim>\<open>||\<close>: \<^verbatim>\<open>fullName: extracted.fullName || prev.fullName\<close>.
\<close>

definition mergeExtracted_components :: "json \<Rightarrow> FormDataState \<Rightarrow> js_error + FormDataState" where
  "mergeExtracted_components extracted prev =
     (case extracted of
        JNull \<Rightarrow> Inl TypeError
      | _ \<Rightarrow>
          Inr \<lparr> fullName = orElse (getProp extracted ''fullName'') (fullName prev),
                address = orElse (getProp extracted ''address'') (address prev),
                year = orElse (getProp extracted ''year'') (year prev),
                makeModel = orElse (getProp extracted ''makeModel'') (makeModel prev),
                vin = orElse (getProp extracted ''vin'') (vin prev),
                date = date prev \<rparr>)"

text \<open>Its parse has no salvage step: \<^verbatim>\<open>const extracted = JSON.parse(cleanJson)\<close>.\<close>

definition parseExtracted_components ::
  "(string \<Rightarrow> json option) \<Rightarrow> string \<Rightarrow> js_error + json" where
  "parseExtracted_components JSON_parse cleaned =
     (case JSON_parse cleaned of None \<Rightarrow> Inl SyntaxError | Some v \<Rightarrow> Inr v)"

text \<open>
  Its \<^verbatim>\<open>extractInformation\<close> from the joined text of the response on (lines 103 to 124);
  \<open>r\<close> is the outcome of the lines before: what was thrown there, or the joined text.
\<close>

definition extractInformation_components ::
  "(string \<Rightarrow> json option) \<Rightarrow> js_error + string \<Rightarrow> File \<Rightarrow> ui_state
     \<Rightarrow> event list \<times> (js_error + ui_state)" where
  "extractInformation_components JSON_parse r f st =
     (let st1 = st\<lparr> extracting := True, error := [] \<rparr>;
          extracted = (case r of Inl e \<Rightarrow> Inl e
                       | Inr t \<Rightarrow>
                           if t = [] then Inl (Error ''No text content extracted'')
                           else parseExtracted_components JSON_parse (cleanJson t))
      in ([ExtractionInvoked f],
          (case extracted of
             Inl e \<Rightarrow> Inr (st1\<lparr> error := extractionErrorMessage, extracting := False \<rparr>)
           | Inr v \<Rightarrow>
               (case mergeExtracted_components v (formData st1) of
                  Inl e \<Rightarrow> Inl e
                | Inr fd \<Rightarrow>
                    Inr (st1\<lparr> formData := fd, extractionComplete := True,
                              extracting := False \<rparr>)))))"

text \<open>Its \<^verbatim>\<open>handleFileUpload\<close>: a rejection only sets the message.\<close>

definition handleFileUpload_components ::
  "(string \<Rightarrow> json option) \<Rightarrow> js_error + string \<Rightarrow> File option \<Rightarrow> ui_state
     \<Rightarrow> event list \<times> (js_error + ui_state)" where
  "handleFileUpload_components JSON_parse r uploaded st =
     (case uploaded of
        None \<Rightarrow> ([], Inr st)
      | Some uploadedFile \<Rightarrow>
          if \<not> isAllowedMime (fileType uploadedFile)
          then ([], Inr (st\<lparr> error := uploadErrorMessage \<rparr>))
          else extractInformation_components JSON_parse r uploadedFile
                 (st\<lparr> file_state := Some uploadedFile, error := [],
                      extractionComplete := False \<rparr>))"

text \<open>
  Its \<^verbatim>\<open>decodeVIN\<close>: no test of \<^verbatim>\<open>response.ok\<close>, and nothing is updated when \<^verbatim>\<open>Results\<close>
  is absent. The updates it collects and spreads over \<^verbatim>\<open>prev\<close> are those of \<open>vinUpdate\<close>
  (\<^verbatim>\<open>|| ''\<close> and \<^verbatim>\<open>?? ''\<close> agree on a string, \<^verbatim>\<open>null\<close> and \<^verbatim>\<open>undefined\<close>).
\<close>

definition decodeVIN_components ::
  "vin_data http_response promise \<Rightarrow> string \<Rightarrow> ui_state \<Rightarrow> event list \<times> ui_state" where
  "decodeVIN_components response v st =
     ([VinLookupRequest v],
      (case response of
         Rejected \<Rightarrow> st
       | Resolved r \<Rightarrow>
           (case body r of
              None \<Rightarrow> st
            | Some data \<Rightarrow>
                (case Results data of
                   None \<Rightarrow> st
                 | Some results \<Rightarrow> st\<lparr> formData := vinUpdate v results (formData st) \<rparr>))))"

text \<open>
  Its download name has no \<^verbatim>\<open>trim\<close> and no default, and its button is disabled by
  \<^verbatim>\<open>!formData.fullName\<close>.
\<close>

definition downloadName_components :: "string \<Rightarrow> string" where
  "downloadName_components n = ''Authorization_Letter_'' @ collapseSpaces n @ ''.jpg''"

definition exportDisabled_components :: "FormDataState \<Rightarrow> bool" where
  "exportDisabled_components fd = (\<not> truthy (fullName fd))"

section \<open>The specification's wording, and observers of a trace\<close>

text \<open>
  The field derivation of the VIN enrichment as the specification words it, to be
  compared with \<open>makeModelStr\<close> and \<open>vinUpdate\<close>: a value that is empty or the
  placeholder counts as nothing; the model candidate is Model, else Series, else Trim;
  the combined string is the make alone, the model alone, or both with a space between.
\<close>

definition usable :: "string \<Rightarrow> string" where
  "usable x = (if absent x then [] else x)"

definition spec_modelCandidate :: "vin_item list \<Rightarrow> string" where
  "spec_modelCandidate results =
     (let m = usable (findValue results ''Model'');
          s = usable (findValue results ''Series'');
          t = usable (findValue results ''Trim'')
      in if m \<noteq> [] then m else if s \<noteq> [] then s else t)"

definition spec_make :: "vin_item list \<Rightarrow> string" where
  "spec_make results = usable (findValue results ''Make'')"

definition spec_year :: "vin_item list \<Rightarrow> string" where
  "spec_year results = usable (findValue results ''Model Year'')"

definition spec_makeModel :: "vin_item list \<Rightarrow> string" where
  "spec_makeModel results =
     (let make = spec_make results; model = spec_modelCandidate results
      in if make = [] then model else if model = [] then make else make @ '' '' @ model)"

text \<open>
  The download name as the specification words it: the full name with its white-space
  runs collapsed to underscores, a default name when the full name is empty.
\<close>

definition claimed_downloadName :: "string \<Rightarrow> string" where
  "claimed_downloadName n =
     ''Authorization_Letter_'' @ (if n = [] then ''Customer'' else collapseSpaces n) @ ''.jpg''"

text \<open>The files the extraction pipeline was invoked for, in a trace.\<close>

fun extractionCalls :: "event list \<Rightarrow> File list" where
  "extractionCalls [] = []"
| "extractionCalls (ExtractionInvoked f # evs) = f # extractionCalls evs"
| "extractionCalls (_ # evs) = extractionCalls evs"

fun isObject :: "json \<Rightarrow> bool" where
  "isObject (JObj kvs) = True"
| "isObject _ = False"

section \<open>Example inputs\<close>

definition example_form :: FormDataState where
  "example_form =
     \<lparr> fullName = JStr ''J. Doe'', address = JStr ''12 Main St, Halifax'', year = JStr ''2018'',
       makeModel = JStr ''Honda Civic'', vin = JStr [], date = ''2024-03-05'' \<rparr>"

definition example_state :: ui_state where
  "example_state =
     \<lparr> file_state = None, extracting = False, formData = example_form,
       extractionComplete = False, error = [] \<rparr>"

definition blank_name_state :: ui_state where
  "blank_name_state = example_state\<lparr> formData := example_form\<lparr> fullName := JStr ''   '' \<rparr> \<rparr>"

definition example_png :: File where
  "example_png = \<lparr> fileName = ''slip.png'', fileType = ''image/png'' \<rparr>"

definition example_gif :: File where
  "example_gif = \<lparr> fileName = ''slip.gif'', fileType = ''image/gif'' \<rparr>"

text \<open>A response of the AI endpoint with one text part.\<close>

definition text_body :: "string \<Rightarrow> json" where
  "text_body t = JObj [(''content'', JArr [JObj [(''type'', JStr ''text''), (''text'', JStr t)]])]"

definition text_response :: "string \<Rightarrow> extraction_env" where
  "text_response t =
     \<lparr> reader = ReaderLoaded (Some ''data:image/png;base64,AAAA''),
       fetched = Resolved \<lparr> ok = True, body = Some (text_body t) \<rparr> \<rparr>"

definition offline :: extraction_env where
  "offline = \<lparr> reader = ReaderLoaded (Some ''data:image/png;base64,AAAA''), fetched = Rejected \<rparr>"

text \<open>
  The scenario of the specification: a fenced answer whose \<^verbatim>\<open>address\<close> and \<^verbatim>\<open>makeModel\<close>
  are empty strings.
\<close>

definition scenario_object :: string where
  "scenario_object =
     ''{\"fullName\":\"Jane Doe\",\"address\":\"\",\"year\":\"2019\",\"makeModel\":\"\",\"vin\":\"1HGBH41JXMN109186\"}''"

definition scenario_text :: string where
  "scenario_text = fence @ ''json'' @ [CHR 0x0A] @ scenario_object @ [CHR 0x0A] @ fence"

definition scenario_value :: json where
  "scenario_value =
     JObj [(''fullName'', JStr ''Jane Doe''), (''address'', JStr []), (''year'', JStr ''2019''),
           (''makeModel'', JStr []), (''vin'', JStr ''1HGBH41JXMN109186'')]"

text \<open>The same object with words before it, and with a remark after it that has braces.\<close>

definition prefixed_text :: string where
  "prefixed_text = ''Here is the JSON: '' @ scenario_object"

definition trailing_text :: string where
  "trailing_text = scenario_object @ '' (fields not found are {})''"

definition api_refusal :: extraction_env where
  "api_refusal =
     \<lparr> reader = ReaderLoaded (Some ''data:image/png;base64,AAAA''),
       fetched = Resolved \<lparr> ok = False, body = Some (text_body scenario_object) \<rparr> \<rparr>"

text \<open>
  \<^verbatim>\<open>JSON.parse\<close> on the texts the examples reach: the object text, a quoted string and a
  number are JSON; the other texts the examples pass to it (\<^verbatim>\<open>unreadable\<close>, the object with
  words around it, and the span matched in \<open>trailing_text\<close>) are not.
\<close>

definition JSON_parse_table :: "string \<Rightarrow> json option" where
  "JSON_parse_table s =
     (if s = scenario_object then Some scenario_value
      else if s = ''\"none\"'' then Some (JStr ''none'')
      else if s = ''42'' then Some (JNum 42)
      else None)"

definition example_vin :: string where
  "example_vin = ''1HGBH41JXMN109186''"

definition results_not_applicable :: vin_data where
  "results_not_applicable =
     \<lparr> Results = Some
         [\<lparr> Variable = Some ''Make'', Value = Some ''Not Applicable'' \<rparr>,
          \<lparr> Variable = Some ''Model'', Value = Some ''Not Applicable'' \<rparr>,
          \<lparr> Variable = Some ''Series'', Value = Some ''Not Applicable'' \<rparr>,
          \<lparr> Variable = Some ''Trim'', Value = Some ''Not Applicable'' \<rparr>,
          \<lparr> Variable = Some ''Model Year'', Value = Some ''Not Applicable'' \<rparr>] \<rparr>"

definition results_honda :: vin_data where
  "results_honda =
     \<lparr> Results = Some
         [\<lparr> Variable = Some ''Make'', Value = Some ''Honda'' \<rparr>,
          \<lparr> Variable = Some ''Model'', Value = Some ''Not Applicable'' \<rparr>,
          \<lparr> Variable = Some ''Series'', Value = Some ''Civic'' \<rparr>] \<rparr>"

text \<open>A browser in Halifax in March: local time is four hours behind UTC.\<close>

definition halifax_browser :: render_env where
  "halifax_browser = \<lparr> localTZA = - 14400000, canvasContext = True, blobCreated = True \<rparr>"

section \<open>Lemmas\<close>

lemma usable_vinModel: "usable (vinModel results) = spec_modelCandidate results"
  by (auto simp add: usable_def absent_def vinModel_def spec_modelCandidate_def Let_def)

lemma makeModelStr_spec: "makeModelStr results = spec_makeModel results"
  unfolding makeModelStr_def spec_makeModel_def spec_make_def Let_def usable_vinModel [symmetric]
  by (auto simp add: usable_def absent_def)

lemma vinUpdate_spec:
  "vinUpdate v results prev =
     prev\<lparr> vin := JStr v,
            makeModel := (if spec_makeModel results \<noteq> [] then JStr (spec_makeModel results)
                          else makeModel prev),
            year := (if spec_year results \<noteq> [] then JStr (spec_year results) else year prev) \<rparr>"
  by (simp add: vinUpdate_def Let_def makeModelStr_spec spec_year_def usable_def absent_def)

lemma decodeVIN_ok:
  "snd (decodeVIN (Resolved \<lparr>ok = True, body = Some data\<rparr>) v st) =
     st\<lparr> formData := vinUpdate v (resultsOf data) (formData st) \<rparr>"
  by (simp add: decodeVIN_def Let_def)

lemma requestExtraction_calls: "extractionCalls (fst (requestExtraction env f)) = []"
  by (simp add: requestExtraction_def Let_def split: sum.splits)

lemma extractInformation_calls:
  "extractionCalls (fst (extractInformation JSON_parse env f st)) = [f]"
  using requestExtraction_calls [of env f]
  by (cases "requestExtraction env f") (simp add: extractInformation_def Let_def)

lemma uploadErrorMessage_nonempty: "uploadErrorMessage \<noteq> []"
  by (simp add: uploadErrorMessage_def)

lemma extractionErrorMessage_nonempty: "extractionErrorMessage \<noteq> []"
  by (simp add: extractionErrorMessage_def)

lemma extractInformation_caught_request:
  assumes "snd (requestExtraction env f) = Inl e"
  shows "snd (extractInformation JSON_parse env f st) =
           Inr (st\<lparr> extracting := False, error := extractionErrorMessage \<rparr>)"
  using assms by (cases "requestExtraction env f") (simp add: extractInformation_def Let_def)

lemma extractInformation_caught_parse:
  assumes "snd (requestExtraction env f) = Inr t"
    and "parseExtracted JSON_parse (cleanJson t) = Inl e"
  shows "snd (extractInformation JSON_parse env f st) =
           Inr (st\<lparr> extracting := False, error := extractionErrorMessage \<rparr>)"
  using assms by (cases "requestExtraction env f") (simp add: extractInformation_def Let_def)

lemma requestExtraction_cases:
  "snd (requestExtraction env f) =
     (case fileToBase64 (reader env) of
        Inl e \<Rightarrow> Inl e
      | Inr b \<Rightarrow>
          (case fetched env of
             Rejected \<Rightarrow> Inl TypeError
           | Resolved r \<Rightarrow>
               if \<not> ok r then Inl (Error ''API error'')
               else (case body r of
                       None \<Rightarrow> Inl SyntaxError
                     | Some data \<Rightarrow>
                         (case textContent data of
                            Inl e \<Rightarrow> Inl e
                          | Inr t \<Rightarrow>
                              if trim t = [] then Inl (Error ''No text content extracted'')
                              else Inr t))))"
  by (simp add: requestExtraction_def Let_def split: sum.splits)

lemma text_response_request:
  "trim t \<noteq> [] \<Longrightarrow>
   requestExtraction (text_response t) example_png =
     ([AnthropicRequest ''image'' ''image/png'' ''AAAA''], Inr t)"
  by (simp add: requestExtraction_def text_response_def text_body_def fileToBase64_def
        example_png_def textContent_def isTextItem_def itemText_def Let_def)

lemma mergeExtracted_no_fields:
  assumes "v \<noteq> JNull" and "\<not> isObject v"
  shows "mergeExtracted v prev = Inr prev"
  using assms by (cases v) (simp_all add: mergeExtracted_def)

lemma collapseSpaces_Nil_iff: "collapseSpaces s = [] \<longleftrightarrow> s = []"
  by (cases s) simp_all

lemma trim_Nil_iff: "trim s = [] \<longleftrightarrow> list_all isSpace s"
proof
  assume t: "trim s = []"
  show "list_all isSpace s"
  proof (rule ccontr)
    assume "\<not> list_all isSpace s"
    then have ne: "dropWhile isSpace s \<noteq> []"
      by (simp add: dropWhile_eq_Nil_conv list_all_iff)
    then have "\<not> isSpace (hd (dropWhile isSpace s))"
      by (rule hd_dropWhile)
    moreover from ne have "hd (dropWhile isSpace s) \<in> set (rev (dropWhile isSpace s))"
      by simp
    ultimately have "dropWhile isSpace (rev (dropWhile isSpace s)) \<noteq> []"
      by (auto simp add: dropWhile_eq_Nil_conv)
    with t show False by (simp add: trim_def)
  qed
next
  assume "list_all isSpace s"
  then show "trim s = []"
    by (auto simp add: trim_def list_all_iff dest: set_dropWhileD)
qed

lemma downloadName_eq:
  "downloadName n =
     ''Authorization_Letter_''
       @ (if list_all isSpace n then ''Customer'' else collapseSpaces (trim n)) @ ''.jpg''"
  by (simp add: downloadName_def Let_def collapseSpaces_Nil_iff trim_Nil_iff)

lemma parse_march_5: "parseISODate ''2024-03-05'' = Some (2024, 3, 5)"
  by code_simp

lemma days_march_5: "daysFromCivil 2024 3 5 = 19787"
  by code_simp

lemma civil_march_5: "civilFromDays 19787 = (2024, 3, 5)"
  by code_simp

lemma civil_march_4: "civilFromDays 19786 = (2024, 3, 4)"
  by code_simp

lemma show_march: "showInt 2024 = ''2024''" "showInt 5 = ''5''" "showInt 4 = ''4''"
  by code_simp+

section \<open>C1: the extraction merge\<close>

text \<open>
  C1 (fill-if-present). The claim: the merge replaces a field only by a non-empty
  extracted string and otherwise keeps the prior value; \<open>date\<close> is not touched.
  The typed component merges with \<^verbatim>\<open>??\<close>, which falls back to the prior value only for
  \<^verbatim>\<open>undefined\<close> and \<^verbatim>\<open>null\<close>. On the scenario of the specification (a PNG whose answer
  has empty \<^verbatim>\<open>address\<close> and \<^verbatim>\<open>makeModel\<close>), from a form whose address and make-model
  are filled in, the extraction succeeds and both fields end as the empty string.
\<close>

theorem extraction_overrides_with_empty:
  "address example_form = JStr ''12 Main St, Halifax''
   \<and> makeModel example_form = JStr ''Honda Civic''
   \<and> snd (extractInformation JSON_parse_table (text_response scenario_text) example_png
            example_state) =
       Inr (example_state\<lparr> extracting := False, extractionComplete := True,
              formData := example_form\<lparr> fullName := JStr ''Jane Doe'', address := JStr [],
                            year := JStr ''2019'', makeModel := JStr [],
                            vin := JStr ''1HGBH41JXMN109186'' \<rparr> \<rparr>)"
  by code_simp

section \<open>C2: VIN field derivation and merge\<close>

text \<open>
  C2. For every lookup response that is \<^verbatim>\<open>ok\<close> and carries a JSON body, \<^verbatim>\<open>decodeVIN\<close>
  updates the form as the specification derives it: \<open>vin\<close> becomes the input VIN;
  \<open>makeModel\<close> becomes the combined string (make alone, model alone, or both, the model
  candidate being Model, else Series, else Trim, with empty and "Not Applicable" counting
  as nothing) when that string is not empty, and keeps its prior value otherwise;
  \<open>year\<close> becomes the Model Year when that is neither empty nor the placeholder, and
  keeps its prior value otherwise. When the five queried fields are all
  "Not Applicable" only \<open>vin\<close> changes, and Make "Honda", Model "Not Applicable",
  Series "Civic" give the make-model "Honda Civic".
\<close>

theorem decodeVIN_derivation_and_merge:
  "formData (snd (decodeVIN (Resolved \<lparr>ok = True, body = Some data\<rparr>) v st)) =
     (formData st)\<lparr> vin := JStr v,
        makeModel := (if spec_makeModel (resultsOf data) \<noteq> []
                      then JStr (spec_makeModel (resultsOf data)) else makeModel (formData st)),
        year := (if spec_year (resultsOf data) \<noteq> []
                 then JStr (spec_year (resultsOf data)) else year (formData st)) \<rparr>
   \<and> (findValue (resultsOf data) ''Make'' = ''Not Applicable''
        \<and> findValue (resultsOf data) ''Model'' = ''Not Applicable''
        \<and> findValue (resultsOf data) ''Series'' = ''Not Applicable''
        \<and> findValue (resultsOf data) ''Trim'' = ''Not Applicable''
        \<and> findValue (resultsOf data) ''Model Year'' = ''Not Applicable''
      \<longrightarrow> formData (snd (decodeVIN (Resolved \<lparr>ok = True, body = Some data\<rparr>) v st)) =
            (formData st)\<lparr> vin := JStr v \<rparr>)
   \<and> (findValue (resultsOf data) ''Make'' = ''Honda''
        \<and> findValue (resultsOf data) ''Model'' = ''Not Applicable''
        \<and> findValue (resultsOf data) ''Series'' = ''Civic''
      \<longrightarrow> makeModel (formData (snd (decodeVIN (Resolved \<lparr>ok = True, body = Some data\<rparr>) v st))) =
            JStr ''Honda Civic'')"
proof (intro conjI impI)
  show "formData (snd (decodeVIN (Resolved \<lparr>ok = True, body = Some data\<rparr>) v st)) =
     (formData st)\<lparr> vin := JStr v,
        makeModel := (if spec_makeModel (resultsOf data) \<noteq> []
                      then JStr (spec_makeModel (resultsOf data)) else makeModel (formData st)),
        year := (if spec_year (resultsOf data) \<noteq> []
                 then JStr (spec_year (resultsOf data)) else year (formData st)) \<rparr>"
    by (simp only: decodeVIN_ok vinUpdate_spec) simp
next
  assume "findValue (resultsOf data) ''Make'' = ''Not Applicable''
        \<and> findValue (resultsOf data) ''Model'' = ''Not Applicable''
        \<and> findValue (resultsOf data) ''Series'' = ''Not Applicable''
        \<and> findValue (resultsOf data) ''Trim'' = ''Not Applicable''
        \<and> findValue (resultsOf data) ''Model Year'' = ''Not Applicable''"
  then have "spec_makeModel (resultsOf data) = []" "spec_year (resultsOf data) = []"
    by (simp_all add: spec_makeModel_def spec_make_def spec_modelCandidate_def spec_year_def
          usable_def absent_def)
  then show "formData (snd (decodeVIN (Resolved \<lparr>ok = True, body = Some data\<rparr>) v st)) =
            (formData st)\<lparr> vin := JStr v \<rparr>"
    by (simp add: decodeVIN_ok vinUpdate_spec)
next
  assume "findValue (resultsOf data) ''Make'' = ''Honda''
        \<and> findValue (resultsOf data) ''Model'' = ''Not Applicable''
        \<and> findValue (resultsOf data) ''Series'' = ''Civic''"
  then have "spec_makeModel (resultsOf data) = ''Honda Civic''"
    by (simp add: spec_makeModel_def spec_make_def spec_modelCandidate_def usable_def absent_def)
  then show "makeModel (formData (snd (decodeVIN (Resolved \<lparr>ok = True, body = Some data\<rparr>) v st))) =
            JStr ''Honda Civic''"
    by (simp add: decodeVIN_ok vinUpdate_spec)
qed

text \<open>
  The theorem at two responses: every queried field "Not Applicable", and the Honda
  response of the specification.
\<close>

theorem decodeVIN_derivation_and_merge_witness:
  "findValue (resultsOf results_not_applicable) ''Make'' = ''Not Applicable''
   \<and> findValue (resultsOf results_not_applicable) ''Model'' = ''Not Applicable''
   \<and> findValue (resultsOf results_not_applicable) ''Series'' = ''Not Applicable''
   \<and> findValue (resultsOf results_not_applicable) ''Trim'' = ''Not Applicable''
   \<and> findValue (resultsOf results_not_applicable) ''Model Year'' = ''Not Applicable''
   \<and> formData (snd (decodeVIN (Resolved \<lparr>ok = True, body = Some results_not_applicable\<rparr>)
         example_vin example_state)) = example_form\<lparr> vin := JStr example_vin \<rparr>
   \<and> findValue (resultsOf results_honda) ''Make'' = ''Honda''
   \<and> findValue (resultsOf results_honda) ''Model'' = ''Not Applicable''
   \<and> findValue (resultsOf results_honda) ''Series'' = ''Civic''
   \<and> makeModel (formData (snd (decodeVIN (Resolved \<lparr>ok = True, body = Some results_honda\<rparr>)
         example_vin example_state))) = JStr ''Honda Civic''"
proof -
  have na: "findValue (resultsOf results_not_applicable) ''Make'' = ''Not Applicable''
      \<and> findValue (resultsOf results_not_applicable) ''Model'' = ''Not Applicable''
      \<and> findValue (resultsOf results_not_applicable) ''Series'' = ''Not Applicable''
      \<and> findValue (resultsOf results_not_applicable) ''Trim'' = ''Not Applicable''
      \<and> findValue (resultsOf results_not_applicable) ''Model Year'' = ''Not Applicable''"
    by (simp add: findValue_def resultsOf_def results_not_applicable_def)
  have honda: "findValue (resultsOf results_honda) ''Make'' = ''Honda''
      \<and> findValue (resultsOf results_honda) ''Model'' = ''Not Applicable''
      \<and> findValue (resultsOf results_honda) ''Series'' = ''Civic''"
    by (simp add: findValue_def resultsOf_def results_honda_def)
  have form: "formData example_state = example_form"
    by (simp add: example_state_def)
  from na decodeVIN_derivation_and_merge
    [where data = results_not_applicable and v = example_vin and st = example_state]
  have "formData (snd (decodeVIN (Resolved \<lparr>ok = True, body = Some results_not_applicable\<rparr>)
         example_vin example_state)) = (formData example_state)\<lparr> vin := JStr example_vin \<rparr>"
    by blast
  then have c1: "formData (snd (decodeVIN (Resolved \<lparr>ok = True, body = Some results_not_applicable\<rparr>)
         example_vin example_state)) = example_form\<lparr> vin := JStr example_vin \<rparr>"
    by (simp only: form)
  from honda decodeVIN_derivation_and_merge
    [where data = results_honda and v = example_vin and st = example_state]
  have c2: "makeModel (formData (snd (decodeVIN (Resolved \<lparr>ok = True, body = Some results_honda\<rparr>)
         example_vin example_state))) = JStr ''Honda Civic''"
    by blast
  from na honda c1 c2 show ?thesis by blast
qed

section \<open>C3: the salvage parse\<close>

text \<open>
  C3. The claim: when the cleaned text is not JSON, the first top-level object literal in
  it is matched and parsed, and the extraction fails only when that match or its parse
  fails. The regular expression of the salvage step is greedy: its match runs from the
  first opening brace to the last closing brace. On an answer whose object is followed by
  a remark with braces, the cleaned text is not JSON, the match is the object together
  with the remark up to its last brace, that match is not JSON either, and the
  extraction is reported as failed, although the object itself parses.
\<close>

theorem salvage_greedy_failure:
  "cleanJson trailing_text = trailing_text
   \<and> JSON_parse_table trailing_text = None
   \<and> matchObject trailing_text = Some (scenario_object @ '' (fields not found are {}'')
   \<and> JSON_parse_table (scenario_object @ '' (fields not found are {}'') = None
   \<and> JSON_parse_table scenario_object = Some scenario_value
   \<and> snd (extractInformation JSON_parse_table (text_response trailing_text) example_png
            example_state) =
       Inr (example_state\<lparr> extracting := False, error := extractionErrorMessage \<rparr>)"
  by code_simp

section \<open>C4: failure of the extraction\<close>

text \<open>
  C4. When the request fails (the \<^verbatim>\<open>fetch\<close> is rejected, the status is not a success,
  the body is not JSON, the content is malformed, or the text content is empty or absent)
  or the text is not JSON and the salvage step finds no match or no JSON in its match,
  \<^verbatim>\<open>extractInformation\<close> ends in the prior state with \<open>error\<close> set to the one generic
  message and \<open>extracting\<close> cleared: no field of the form record changes.
\<close>

theorem extractInformation_failure:
  "(let failed = (snd (extractInformation JSON_parse env f st) =
                    Inr (st\<lparr> extracting := False, error := extractionErrorMessage \<rparr>))
    in (fetched env = Rejected \<longrightarrow> failed)
     \<and> (fetched env = Resolved r \<and> \<not> ok r \<longrightarrow> failed)
     \<and> (fetched env = Resolved r \<and> ok r \<and> body r = None \<longrightarrow> failed)
     \<and> (fetched env = Resolved r \<and> ok r \<and> body r = Some data \<and> textContent data = Inl e
          \<longrightarrow> failed)
     \<and> (fetched env = Resolved r \<and> ok r \<and> body r = Some data \<and> textContent data = Inr t
          \<and> trim t = [] \<longrightarrow> failed)
     \<and> (fetched env = Resolved r \<and> ok r \<and> body r = Some data \<and> textContent data = Inr t
          \<and> JSON_parse (cleanJson t) = None \<and> matchObject (cleanJson t) = None \<longrightarrow> failed)
     \<and> (fetched env = Resolved r \<and> ok r \<and> body r = Some data \<and> textContent data = Inr t
          \<and> JSON_parse (cleanJson t) = None \<and> matchObject (cleanJson t) = Some m
          \<and> JSON_parse m = None \<longrightarrow> failed))"
proof -
  have req: "\<And>x. snd (requestExtraction env f) = Inl x \<Longrightarrow>
      snd (extractInformation JSON_parse env f st) =
        Inr (st\<lparr> extracting := False, error := extractionErrorMessage \<rparr>)"
    by (rule extractInformation_caught_request)
  have early: "\<exists>x. snd (requestExtraction env f) = Inl x"
    if "fetched env = Rejected
        \<or> (fetched env = Resolved r \<and> (\<not> ok r \<or> body r = None
             \<or> (body r = Some data \<and> (textContent data = Inl e
                   \<or> (textContent data = Inr t \<and> trim t = [])))))"
    using that by (auto simp add: requestExtraction_cases split: sum.splits)
  have late: "snd (extractInformation JSON_parse env f st) =
        Inr (st\<lparr> extracting := False, error := extractionErrorMessage \<rparr>)"
    if h: "fetched env = Resolved r" "ok r" "body r = Some data" "textContent data = Inr t"
      and p: "\<exists>x. parseExtracted JSON_parse (cleanJson t) = Inl x"
  proof (cases "snd (requestExtraction env f)")
    case (Inl x)
    then show ?thesis by (rule req)
  next
    case (Inr t')
    with h have "t' = t"
      by (auto simp add: requestExtraction_cases split: sum.splits if_splits)
    with Inr p show ?thesis
      by (auto intro: extractInformation_caught_parse)
  qed
  show ?thesis
    unfolding Let_def
  proof (intro conjI impI)
    assume "fetched env = Rejected"
    with early req show "snd (extractInformation JSON_parse env f st) =
        Inr (st\<lparr> extracting := False, error := extractionErrorMessage \<rparr>)" by blast
  next
    assume "fetched env = Resolved r \<and> \<not> ok r"
    with early req show "snd (extractInformation JSON_parse env f st) =
        Inr (st\<lparr> extracting := False, error := extractionErrorMessage \<rparr>)" by blast
  next
    assume "fetched env = Resolved r \<and> ok r \<and> body r = None"
    with early req show "snd (extractInformation JSON_parse env f st) =
        Inr (st\<lparr> extracting := False, error := extractionErrorMessage \<rparr>)" by blast
  next
    assume "fetched env = Resolved r \<and> ok r \<and> body r = Some data \<and> textContent data = Inl e"
    with early req show "snd (extractInformation JSON_parse env f st) =
        Inr (st\<lparr> extracting := False, error := extractionErrorMessage \<rparr>)" by blast
  next
    assume "fetched env = Resolved r \<and> ok r \<and> body r = Some data \<and> textContent data = Inr t
          \<and> trim t = []"
    with early req show "snd (extractInformation JSON_parse env f st) =
        Inr (st\<lparr> extracting := False, error := extractionErrorMessage \<rparr>)" by blast
  next
    assume a: "fetched env = Resolved r \<and> ok r \<and> body r = Some data \<and> textContent data = Inr t
          \<and> JSON_parse (cleanJson t) = None \<and> matchObject (cleanJson t) = None"
    then have "\<exists>x. parseExtracted JSON_parse (cleanJson t) = Inl x"
      by (simp add: parseExtracted_def)
    with a late show "snd (extractInformation JSON_parse env f st) =
        Inr (st\<lparr> extracting := False, error := extractionErrorMessage \<rparr>)" by blast
  next
    assume a: "fetched env = Resolved r \<and> ok r \<and> body r = Some data \<and> textContent data = Inr t
          \<and> JSON_parse (cleanJson t) = None \<and> matchObject (cleanJson t) = Some m
          \<and> JSON_parse m = None"
    then have "\<exists>x. parseExtracted JSON_parse (cleanJson t) = Inl x"
      by (simp add: parseExtracted_def)
    with a late show "snd (extractInformation JSON_parse env f st) =
        Inr (st\<lparr> extracting := False, error := extractionErrorMessage \<rparr>)" by blast
  qed
qed

text \<open>
  The theorem at three uploads: the network is down; the endpoint answers with a
  status that is not a success; the answer is the word \<^verbatim>\<open>unreadable\<close>.
\<close>

theorem extractInformation_failure_witness:
  "fetched offline = Rejected
   \<and> snd (extractInformation JSON_parse_table offline example_png example_state) =
        Inr (example_state\<lparr> extracting := False, error := extractionErrorMessage \<rparr>)
   \<and> fetched api_refusal = Resolved \<lparr> ok = False, body = Some (text_body scenario_object) \<rparr>
   \<and> \<not> ok \<lparr> ok = False, body = Some (text_body scenario_object) \<rparr>
   \<and> snd (extractInformation JSON_parse_table api_refusal example_png example_state) =
        Inr (example_state\<lparr> extracting := False, error := extractionErrorMessage \<rparr>)
   \<and> fetched (text_response ''unreadable'') = Resolved \<lparr> ok = True, body = Some (text_body ''unreadable'') \<rparr>
   \<and> textContent (text_body ''unreadable'') = Inr ''unreadable''
   \<and> JSON_parse_table (cleanJson ''unreadable'') = None \<and> matchObject (cleanJson ''unreadable'') = None
   \<and> snd (extractInformation JSON_parse_table (text_response ''unreadable'') example_png example_state) =
        Inr (example_state\<lparr> extracting := False, error := extractionErrorMessage \<rparr>)"
proof -
  note failure = extractInformation_failure [unfolded Let_def]
  have a: "fetched offline = Rejected"
    by (simp add: offline_def)
  from a failure [where env = offline and JSON_parse = JSON_parse_table and f = example_png
      and st = example_state]
  have c1: "snd (extractInformation JSON_parse_table offline example_png example_state) =
        Inr (example_state\<lparr> extracting := False, error := extractionErrorMessage \<rparr>)"
    by blast
  have b: "fetched api_refusal = Resolved \<lparr> ok = False, body = Some (text_body scenario_object) \<rparr>
      \<and> \<not> ok \<lparr> ok = False, body = Some (text_body scenario_object) \<rparr>"
    by (simp add: api_refusal_def)
  from b failure [where env = api_refusal and JSON_parse = JSON_parse_table and f = example_png
      and st = example_state and r = "\<lparr> ok = False, body = Some (text_body scenario_object) \<rparr>"]
  have c2: "snd (extractInformation JSON_parse_table api_refusal example_png example_state) =
        Inr (example_state\<lparr> extracting := False, error := extractionErrorMessage \<rparr>)"
    by blast
  have c: "fetched (text_response ''unreadable'') = Resolved \<lparr> ok = True, body = Some (text_body ''unreadable'') \<rparr>"
    by (simp add: text_response_def)
  have c': "ok \<lparr> ok = True, body = Some (text_body ''unreadable'') \<rparr>
      \<and> body \<lparr> ok = True, body = Some (text_body ''unreadable'') \<rparr> = Some (text_body ''unreadable'')"
    by simp
  have d: "textContent (text_body ''unreadable'') = Inr ''unreadable''"
    by (simp add: textContent_def text_body_def isTextItem_def itemText_def)
  have e: "JSON_parse_table (cleanJson ''unreadable'') = None \<and> matchObject (cleanJson ''unreadable'') = None"
    by code_simp
  from c c' d e failure [where env = "text_response ''unreadable''" and JSON_parse = JSON_parse_table
      and f = example_png and st = example_state
      and r = "\<lparr> ok = True, body = Some (text_body ''unreadable'') \<rparr>"
      and data = "text_body ''unreadable''" and t = "''unreadable''"]
  have c3: "snd (extractInformation JSON_parse_table (text_response ''unreadable'') example_png example_state) =
        Inr (example_state\<lparr> extracting := False, error := extractionErrorMessage \<rparr>)"
    by blast
  from a b c d e c1 c2 c3 show ?thesis by blast
qed

section \<open>C5: upload validation\<close>

text \<open>
  C5. A file whose declared type is not one of \<^verbatim>\<open>application/pdf\<close>, \<^verbatim>\<open>image/jpeg\<close>,
  \<^verbatim>\<open>image/jpg\<close>, \<^verbatim>\<open>image/png\<close> sets the (non-empty) upload message, changes no field of
  the form record and asks nothing of any collaborator: the trace is empty. A file whose
  type is in the set runs \<^verbatim>\<open>extractInformation\<close> from the state with \<open>error\<close> and
  \<open>extractionComplete\<close> cleared, and the pipeline is invoked exactly once, for that file.
\<close>

theorem handleFileUpload_validation:
  "(fileType f \<notin> {''application/pdf'', ''image/jpeg'', ''image/jpg'', ''image/png''} \<longrightarrow>
      handleFileUpload JSON_parse env (Some f) st =
        ([], Inr (st\<lparr> error := uploadErrorMessage, file_state := None,
                       extractionComplete := False \<rparr>))
      \<and> uploadErrorMessage \<noteq> [])
   \<and> (fileType f \<in> {''application/pdf'', ''image/jpeg'', ''image/jpg'', ''image/png''} \<longrightarrow>
      handleFileUpload JSON_parse env (Some f) st =
        (FileInputReset #
           fst (extractInformation JSON_parse env f
                  (st\<lparr> file_state := Some f, error := [], extractionComplete := False \<rparr>)),
         snd (extractInformation JSON_parse env f
                  (st\<lparr> file_state := Some f, error := [], extractionComplete := False \<rparr>)))
      \<and> extractionCalls (fst (handleFileUpload JSON_parse env (Some f) st)) = [f])"
proof (intro conjI impI)
  assume "fileType f \<notin> {''application/pdf'', ''image/jpeg'', ''image/jpg'', ''image/png''}"
  then have "\<not> isAllowedMime (fileType f)"
    by (simp add: isAllowedMime_def allowedTypes_def)
  then show "handleFileUpload JSON_parse env (Some f) st =
        ([], Inr (st\<lparr> error := uploadErrorMessage, file_state := None,
                       extractionComplete := False \<rparr>))"
    by (simp add: handleFileUpload_def)
next
  show "uploadErrorMessage \<noteq> []" by (rule uploadErrorMessage_nonempty)
next
  assume "fileType f \<in> {''application/pdf'', ''image/jpeg'', ''image/jpg'', ''image/png''}"
  then have "isAllowedMime (fileType f)"
    by (simp add: isAllowedMime_def allowedTypes_def)
  then show eq: "handleFileUpload JSON_parse env (Some f) st =
        (FileInputReset #
           fst (extractInformation JSON_parse env f
                  (st\<lparr> file_state := Some f, error := [], extractionComplete := False \<rparr>)),
         snd (extractInformation JSON_parse env f
                  (st\<lparr> file_state := Some f, error := [], extractionComplete := False \<rparr>)))"
    by (simp add: handleFileUpload_def extractEnabled_def Let_def split: prod.splits)
  show "extractionCalls (fst (handleFileUpload JSON_parse env (Some f) st)) = [f]"
    by (simp only: eq fst_conv extractionCalls.simps extractInformation_calls)
qed

text \<open>The theorem at a GIF, which is refused, and at a PNG, which is extracted once.\<close>

theorem handleFileUpload_validation_witness:
  "fileType example_gif \<notin> {''application/pdf'', ''image/jpeg'', ''image/jpg'', ''image/png''}
   \<and> handleFileUpload JSON_parse_table (text_response scenario_text) (Some example_gif)
        example_state =
        ([], Inr (example_state\<lparr> error := uploadErrorMessage, file_state := None,
                       extractionComplete := False \<rparr>))
   \<and> fileType example_png \<in> {''application/pdf'', ''image/jpeg'', ''image/jpg'', ''image/png''}
   \<and> extractionCalls (fst (handleFileUpload JSON_parse_table (text_response scenario_text)
         (Some example_png) example_state)) = [example_png]"
proof -
  have gif: "fileType example_gif \<notin> {''application/pdf'', ''image/jpeg'', ''image/jpg'', ''image/png''}"
    by (simp add: example_gif_def)
  have png: "fileType example_png \<in> {''application/pdf'', ''image/jpeg'', ''image/jpg'', ''image/png''}"
    by (simp add: example_png_def)
  from gif handleFileUpload_validation
    [where f = example_gif and JSON_parse = JSON_parse_table
       and env = "text_response scenario_text" and st = example_state]
  have c1: "handleFileUpload JSON_parse_table (text_response scenario_text) (Some example_gif)
        example_state =
        ([], Inr (example_state\<lparr> error := uploadErrorMessage, file_state := None,
                       extractionComplete := False \<rparr>))"
    by blast
  from png handleFileUpload_validation
    [where f = example_png and JSON_parse = JSON_parse_table
       and env = "text_response scenario_text" and st = example_state]
  have c2: "extractionCalls (fst (handleFileUpload JSON_parse_table (text_response scenario_text)
         (Some example_png) example_state)) = [example_png]"
    by blast
  from gif png c1 c2 show ?thesis by blast
qed

section \<open>C6: when a VIN lookup is issued\<close>

text \<open>
  C6. An edit issues a VIN lookup exactly when the edited field is \<open>vin\<close> and the new
  value has 17 characters, whatever the characters are; the lookup is for that value.
  An edit of any other length, shorter or longer, issues none. (The function is the same
  in both versions of the component.)
\<close>

theorem handleInputChange_lookup:
  "fst (handleInputChange response fld value st) =
     (if fld = Vin \<and> length value = 17 then [VinLookupRequest value] else [])
   \<and> (\<exists>v. VinLookupRequest v \<in> set (fst (handleInputChange response fld value st)))
       = (fld = Vin \<and> length value = 17)"
  by (simp add: handleInputChange_def decodeVIN_def Let_def)

section \<open>C7: the date on the letter\<close>

text \<open>
  C7. The claim: the date 2024-03-05 is drawn as "March 5, 2024". The renderer reads the
  stored string as midnight UTC and prints the fields of the local time. In a browser
  whose zone is behind UTC (here Halifax, four hours behind) the letter for the stored
  date 2024-03-05 carries "March 4, 2024".
\<close>

theorem generatePDF_date_west_of_utc:
  "date (formData example_state) = ''2024-03-05''
   \<and> fst (generatePDF halifax_browser example_state) = [DateText ''March 4, 2024'']"
  by code_simp

section \<open>C8: the download name and the export gate\<close>

text \<open>
  C8, as amended. The download is named "Authorization_Letter_", then the full name with
  its leading and trailing white space removed and every remaining run of white space
  replaced by one underscore (or "Customer" when the full name is empty or all white
  space), then ".jpg". For every state whose full name is empty or all white space the
  export button is disabled and a click on it draws nothing, downloads nothing and leaves
  the state as it is; for any other full name, with a canvas and a blob, the click
  downloads the file under that name.
\<close>

theorem export_name_and_gate:
  "downloadName n =
     ''Authorization_Letter_''
       @ (if list_all isSpace n then ''Customer'' else collapseSpaces (trim n)) @ ''.jpg''
   \<and> (fullName (formData st) = JStr n \<and> list_all isSpace n \<longrightarrow>
        exportDisabled (formData st) = Inr True \<and> clickExport env st = ([], [], Inr st))
   \<and> (fullName (formData st) = JStr n \<and> \<not> list_all isSpace n
        \<and> canvasContext env \<and> blobCreated env \<longrightarrow>
        fst (snd (clickExport env st)) = [Download (downloadName n)])"
proof (intro conjI impI)
  show "downloadName n =
     ''Authorization_Letter_''
       @ (if list_all isSpace n then ''Customer'' else collapseSpaces (trim n)) @ ''.jpg''"
    by (rule downloadName_eq)
next
  assume "fullName (formData st) = JStr n \<and> list_all isSpace n"
  then show "exportDisabled (formData st) = Inr True"
    by (simp add: exportDisabled_def trim_Nil_iff)
  then show "clickExport env st = ([], [], Inr st)"
    by (simp add: clickExport_def)
next
  assume a: "fullName (formData st) = JStr n \<and> \<not> list_all isSpace n
        \<and> canvasContext env \<and> blobCreated env"
  then have "exportDisabled (formData st) = Inr False"
    by (simp add: exportDisabled_def trim_Nil_iff)
  with a show "fst (snd (clickExport env st)) = [Download (downloadName n)]"
    by (simp add: clickExport_def generatePDF_def Let_def)
qed

text \<open>The theorem at a full name of three spaces, and at the name "J. Doe".\<close>

theorem export_name_and_gate_witness:
  "fullName (formData blank_name_state) = JStr ''   '' \<and> list_all isSpace ''   ''
   \<and> exportDisabled (formData blank_name_state) = Inr True
   \<and> clickExport halifax_browser blank_name_state = ([], [], Inr blank_name_state)
   \<and> fullName (formData example_state) = JStr ''J. Doe'' \<and> \<not> list_all isSpace ''J. Doe''
   \<and> canvasContext halifax_browser \<and> blobCreated halifax_browser
   \<and> fst (snd (clickExport halifax_browser example_state)) = [Download (downloadName ''J. Doe'')]
   \<and> downloadName ''J. Doe'' = ''Authorization_Letter_J._Doe.jpg''"
proof -
  have b: "fullName (formData blank_name_state) = JStr ''   '' \<and> list_all isSpace ''   ''"
    by (simp add: blank_name_state_def isSpace_def)
  have j: "fullName (formData example_state) = JStr ''J. Doe'' \<and> \<not> list_all isSpace ''J. Doe''
      \<and> canvasContext halifax_browser \<and> blobCreated halifax_browser"
    by (simp add: example_state_def example_form_def isSpace_def halifax_browser_def)
  from b export_name_and_gate
    [where n = "''   ''" and st = blank_name_state and env = halifax_browser]
  have c1: "exportDisabled (formData blank_name_state) = Inr True
      \<and> clickExport halifax_browser blank_name_state = ([], [], Inr blank_name_state)"
    by blast
  from j export_name_and_gate
    [where n = "''J. Doe''" and st = example_state and env = halifax_browser]
  have c2: "fst (snd (clickExport halifax_browser example_state)) =
      [Download (downloadName ''J. Doe'')]"
    by blast
  have c3: "downloadName ''J. Doe'' = ''Authorization_Letter_J._Doe.jpg''"
    by code_simp
  from b j c1 c2 c3 show ?thesis by blast
qed

text \<open>
  C8 as stated fails for a full name with white space at an end: the name is trimmed
  before its runs are collapsed, so no underscore stands for the leading space.
\<close>

theorem downloadName_counterexample:
  "downloadName '' Jane Doe'' = ''Authorization_Letter_Jane_Doe.jpg''
   \<and> claimed_downloadName '' Jane Doe'' = ''Authorization_Letter__Jane_Doe.jpg''
   \<and> downloadName '' Jane Doe'' \<noteq> claimed_downloadName '' Jane Doe''"
  by code_simp

section \<open>C9: an answer that is JSON but not an object\<close>

text \<open>
  C9. When the request yields a text whose cleaned form parses as a JSON value that is
  neither an object nor \<^verbatim>\<open>null\<close> (a string, a number, a boolean, an array), the extraction
  succeeds: the form record is the prior one, \<open>error\<close> is empty and
  \<open>extractionComplete\<close> is set.
\<close>

theorem extractInformation_non_object:
  "requestExtraction env f = (evs, Inr t) \<and> JSON_parse (cleanJson t) = Some v
     \<and> v \<noteq> JNull \<and> \<not> isObject v
   \<longrightarrow> snd (extractInformation JSON_parse env f st) =
         Inr (st\<lparr> extracting := False, error := [], extractionComplete := True \<rparr>)"
  by (auto simp add: extractInformation_def Let_def parseExtracted_def mergeExtracted_no_fields)

text \<open>The theorem at an answer that is the bare number 42.\<close>

theorem extractInformation_non_object_witness:
  "requestExtraction (text_response ''42'') example_png =
     ([AnthropicRequest ''image'' ''image/png'' ''AAAA''], Inr ''42'')
   \<and> JSON_parse_table (cleanJson ''42'') = Some (JNum 42)
   \<and> JNum 42 \<noteq> JNull \<and> \<not> isObject (JNum 42)
   \<and> snd (extractInformation JSON_parse_table (text_response ''42'') example_png example_state) =
        Inr (example_state\<lparr> extracting := False, error := [], extractionComplete := True \<rparr>)"
proof -
  have r: "requestExtraction (text_response ''42'') example_png =
     ([AnthropicRequest ''image'' ''image/png'' ''AAAA''], Inr ''42'')"
    by (rule text_response_request) code_simp
  have p: "JSON_parse_table (cleanJson ''42'') = Some (JNum 42)"
    by code_simp
  have v: "JNum 42 \<noteq> JNull \<and> \<not> isObject (JNum 42)"
    by simp
  from r p v extractInformation_non_object
    [where env = "text_response ''42''" and f = example_png and t = "''42''"
       and JSON_parse = JSON_parse_table and v = "JNum 42" and st = example_state
       and evs = "[AnthropicRequest ''image'' ''image/png'' ''AAAA'']"]
  have "snd (extractInformation JSON_parse_table (text_response ''42'') example_png example_state) =
        Inr (example_state\<lparr> extracting := False, error := [], extractionComplete := True \<rparr>)"
    by blast
  with r p v show ?thesis by blast
qed

section \<open>C10: the frame of a VIN lookup\<close>

text \<open>
  C10. The update of a successful lookup sets \<open>vin\<close> to the value the lookup was issued
  for, whatever the field holds by then; and no lookup, successful or not, changes
  \<open>fullName\<close>, \<open>address\<close> or \<open>date\<close>, or any cell of the state other than the form record.
\<close>

theorem decodeVIN_frame:
  "vin (formData (snd (decodeVIN (Resolved \<lparr>ok = True, body = Some data\<rparr>) v st))) = JStr v
   \<and> fullName (formData (snd (decodeVIN response v st))) = fullName (formData st)
   \<and> address (formData (snd (decodeVIN response v st))) = address (formData st)
   \<and> date (formData (snd (decodeVIN response v st))) = date (formData st)
   \<and> snd (decodeVIN response v st) =
       st\<lparr> formData := formData (snd (decodeVIN response v st)) \<rparr>"
  by (simp add: decodeVIN_def vinUpdate_def Let_def split: promise.splits option.splits)

section \<open>Further properties of the extraction\<close>

text \<open>
  What the salvage expression matches: the match starts at the first opening brace of
  the text and ends at its last closing brace.
\<close>

theorem matchObject_span:
  "matchObject s = Some m \<longrightarrow>
     (\<exists>pre inner post. s = pre @ m @ post \<and> m = CHR ''{'' # inner
        \<and> inner \<noteq> [] \<and> last inner = CHR ''}''
        \<and> CHR ''{'' \<notin> set pre \<and> CHR ''}'' \<notin> set post)"
proof
  assume assms: "matchObject s = Some m"
  let ?pre = "takeWhile (\<lambda>c. c \<noteq> CHR ''{'') s"
  let ?t = "dropWhile (\<lambda>c. c \<noteq> CHR ''{'') s"
  let ?inner = "rev (dropWhile (\<lambda>c. c \<noteq> CHR ''}'') (rev (tl ?t)))"
  let ?post = "rev (takeWhile (\<lambda>c. c \<noteq> CHR ''}'') (rev (tl ?t)))"
  from assms have t: "?t \<noteq> []" and inner: "?inner \<noteq> []" and m: "m = CHR ''{'' # ?inner"
    by (auto simp add: matchObject_def Let_def split: if_splits)
  from t have "hd ?t = CHR ''{''"
    using hd_dropWhile [of "\<lambda>c. c \<noteq> CHR ''{''" s] by simp
  with t have tt: "?t = CHR ''{'' # tl ?t"
    by (cases ?t) simp_all
  have "rev (tl ?t) = takeWhile (\<lambda>c. c \<noteq> CHR ''}'') (rev (tl ?t))
          @ dropWhile (\<lambda>c. c \<noteq> CHR ''}'') (rev (tl ?t))"
    by simp
  then have "rev (rev (tl ?t)) = ?inner @ ?post"
    by (metis rev_append)
  then have tl: "tl ?t = ?inner @ ?post" by simp
  have "s = ?pre @ ?t" by simp
  with tt tl m have s: "s = ?pre @ m @ ?post"
    by (metis append_Cons)
  from inner have "dropWhile (\<lambda>c. c \<noteq> CHR ''}'') (rev (tl ?t)) \<noteq> []" by simp
  then have "hd (dropWhile (\<lambda>c. c \<noteq> CHR ''}'') (rev (tl ?t))) = CHR ''}''"
    using hd_dropWhile [of "\<lambda>c. c \<noteq> CHR ''}''" "rev (tl ?t)"] by simp
  with inner have last: "last ?inner = CHR ''}''"
    by (simp add: last_rev)
  have pre: "CHR ''{'' \<notin> set ?pre"
    by (auto dest: set_takeWhileD)
  have post: "CHR ''}'' \<notin> set ?post"
    by (auto dest: set_takeWhileD)
  from s m inner last pre post
  show "\<exists>pre inner post. s = pre @ m @ post \<and> m = CHR ''{'' # inner
        \<and> inner \<noteq> [] \<and> last inner = CHR ''}''
        \<and> CHR ''{'' \<notin> set pre \<and> CHR ''}'' \<notin> set post"
    by blast
qed

theorem matchObject_span_witness:
  "matchObject prefixed_text = Some scenario_object
   \<and> (\<exists>pre inner post. prefixed_text = pre @ scenario_object @ post
        \<and> scenario_object = CHR ''{'' # inner
        \<and> inner \<noteq> [] \<and> last inner = CHR ''}''
        \<and> CHR ''{'' \<notin> set pre \<and> CHR ''}'' \<notin> set post)"
proof -
  have m: "matchObject prefixed_text = Some scenario_object"
    by code_simp
  from m matchObject_span [where s = prefixed_text and m = scenario_object]
  show ?thesis by blast
qed

text \<open>
  The salvage step: when the request yields a text whose cleaned form is not JSON, the
  outcome is decided by the match of the salvage expression in the cleaned text. No
  match, or a match that is not JSON, ends in the failure state; a match that parses is
  merged as a first parse would be.
\<close>

theorem extractInformation_salvage:
  "requestExtraction env f = (evs, Inr t) \<and> JSON_parse (cleanJson t) = None \<longrightarrow>
     snd (extractInformation JSON_parse env f st) =
       (case matchObject (cleanJson t) of
          None \<Rightarrow> Inr (st\<lparr> extracting := False, error := extractionErrorMessage \<rparr>)
        | Some m \<Rightarrow>
            (case JSON_parse m of
               None \<Rightarrow> Inr (st\<lparr> extracting := False, error := extractionErrorMessage \<rparr>)
             | Some v \<Rightarrow>
                 (case mergeExtracted v (formData st) of
                    Inl e \<Rightarrow> Inl e
                  | Inr fd \<Rightarrow>
                      Inr (st\<lparr> extracting := False, error := [], formData := fd,
                               extractionComplete := True \<rparr>))))"
  by (auto simp add: extractInformation_def Let_def parseExtracted_def
        split: option.splits sum.splits)

theorem extractInformation_salvage_witness:
  "requestExtraction (text_response prefixed_text) example_png =
     ([AnthropicRequest ''image'' ''image/png'' ''AAAA''], Inr prefixed_text)
   \<and> JSON_parse_table (cleanJson prefixed_text) = None
   \<and> matchObject (cleanJson prefixed_text) = Some scenario_object
   \<and> snd (extractInformation JSON_parse_table (text_response prefixed_text) example_png
            example_state) =
       Inr (example_state\<lparr> extracting := False, error := [],
              formData := example_form\<lparr> fullName := JStr ''Jane Doe'', address := JStr [],
                            year := JStr ''2019'', makeModel := JStr [],
                            vin := JStr ''1HGBH41JXMN109186'' \<rparr>,
              extractionComplete := True \<rparr>)"
proof -
  have r: "requestExtraction (text_response prefixed_text) example_png =
     ([AnthropicRequest ''image'' ''image/png'' ''AAAA''], Inr prefixed_text)"
    by (rule text_response_request) code_simp
  have p: "JSON_parse_table (cleanJson prefixed_text) = None"
    by code_simp
  have m: "matchObject (cleanJson prefixed_text) = Some scenario_object"
    by code_simp
  have v: "JSON_parse_table scenario_object = Some scenario_value"
    by (simp add: JSON_parse_table_def)
  have g: "mergeExtracted scenario_value (formData example_state) =
      Inr (example_form\<lparr> fullName := JStr ''Jane Doe'', address := JStr [],
                            year := JStr ''2019'', makeModel := JStr [],
                            vin := JStr ''1HGBH41JXMN109186'' \<rparr>)"
    by code_simp
  from r p extractInformation_salvage
    [where env = "text_response prefixed_text" and f = example_png and t = prefixed_text
       and JSON_parse = JSON_parse_table and st = example_state
       and evs = "[AnthropicRequest ''image'' ''image/png'' ''AAAA'']"]
  have "snd (extractInformation JSON_parse_table (text_response prefixed_text) example_png
            example_state) =
       (case matchObject (cleanJson prefixed_text) of
          None \<Rightarrow> Inr (example_state\<lparr> extracting := False, error := extractionErrorMessage \<rparr>)
        | Some m \<Rightarrow>
            (case JSON_parse_table m of
               None \<Rightarrow> Inr (example_state\<lparr> extracting := False, error := extractionErrorMessage \<rparr>)
             | Some v \<Rightarrow>
                 (case mergeExtracted v (formData example_state) of
                    Inl e \<Rightarrow> Inl e
                  | Inr fd \<Rightarrow>
                      Inr (example_state\<lparr> extracting := False, error := [], formData := fd,
                               extractionComplete := True \<rparr>))))"
    by blast
  then have "snd (extractInformation JSON_parse_table (text_response prefixed_text) example_png
            example_state) =
       Inr (example_state\<lparr> extracting := False, error := [],
              formData := example_form\<lparr> fullName := JStr ''Jane Doe'', address := JStr [],
                            year := JStr ''2019'', makeModel := JStr [],
                            vin := JStr ''1HGBH41JXMN109186'' \<rparr>,
              extractionComplete := True \<rparr>)"
    by (simp only: m v g option.case sum.case)
  with r p m show ?thesis by blast
qed

section \<open>Further properties of the date\<close>

text \<open>
  The date 2024-03-05 is drawn as "March 5, 2024" in every zone at or ahead of UTC, and
  as "March 4, 2024" in every zone behind UTC (offsets of less than a day).
\<close>

theorem formattedDate_by_zone:
  "(0 \<le> tza \<and> tza < msPerDay \<longrightarrow> formattedDate tza ''2024-03-05'' = ''March 5, 2024'')
   \<and> (- msPerDay \<le> tza \<and> tza < 0 \<longrightarrow> formattedDate tza ''2024-03-05'' = ''March 4, 2024'')"
proof (intro conjI impI)
  assume "0 \<le> tza \<and> tza < msPerDay"
  then have "0 \<le> tza" and "tza < msPerDay"
    by simp_all
  then have "(19787 * msPerDay + tza) div msPerDay = 19787"
    by (simp add: msPerDay_def)
  then show "formattedDate tza ''2024-03-05'' = ''March 5, 2024''"
    by (simp add: formattedDate_def dateFields_def parse_march_5 days_march_5 civil_march_5
          show_march months_def)
next
  assume "- msPerDay \<le> tza \<and> tza < 0"
  then have "- msPerDay \<le> tza" and "tza < 0"
    by simp_all
  then have "(19787 * msPerDay + tza) div msPerDay = 19786"
    by (simp add: msPerDay_def)
  then show "formattedDate tza ''2024-03-05'' = ''March 4, 2024''"
    by (simp add: formattedDate_def dateFields_def parse_march_5 days_march_5 civil_march_4
          show_march months_def)
qed

theorem formattedDate_by_zone_witness:
  "(0::int) \<le> 3600000 \<and> (3600000::int) < msPerDay
   \<and> formattedDate 3600000 ''2024-03-05'' = ''March 5, 2024''
   \<and> - msPerDay \<le> (- 18000000::int) \<and> (- 18000000::int) < 0
   \<and> formattedDate (- 18000000) ''2024-03-05'' = ''March 4, 2024''"
proof -
  have e: "(0::int) \<le> 3600000 \<and> (3600000::int) < msPerDay"
    by (simp add: msPerDay_def)
  have w: "- msPerDay \<le> (- 18000000::int) \<and> (- 18000000::int) < 0"
    by (simp add: msPerDay_def)
  from e formattedDate_by_zone [where tza = 3600000]
  have c1: "formattedDate 3600000 ''2024-03-05'' = ''March 5, 2024''" by blast
  from w formattedDate_by_zone [where tza = "- 18000000"]
  have c2: "formattedDate (- 18000000) ''2024-03-05'' = ''March 4, 2024''" by blast
  from e w c1 c2 show ?thesis by blast
qed

section \<open>The earlier version against the same claims\<close>

text \<open>
  The merge of the earlier version is fill-if-present on string fields: a field of the
  answer that is a string replaces the prior value when it is not empty, and the prior
  value stays otherwise; \<open>date\<close> is kept.
\<close>

theorem mergeExtracted_components_fill_if_present:
  "getProp v ''fullName'' = Some (JStr a) \<and> getProp v ''address'' = Some (JStr b)
     \<and> getProp v ''year'' = Some (JStr c) \<and> getProp v ''makeModel'' = Some (JStr d)
     \<and> getProp v ''vin'' = Some (JStr e)
   \<longrightarrow> mergeExtracted_components v prev =
         Inr \<lparr> fullName = (if a \<noteq> [] then JStr a else fullName prev),
               address = (if b \<noteq> [] then JStr b else address prev),
               year = (if c \<noteq> [] then JStr c else year prev),
               makeModel = (if d \<noteq> [] then JStr d else makeModel prev),
               vin = (if e \<noteq> [] then JStr e else vin prev),
               date = date prev \<rparr>"
  by (cases v) (simp_all add: mergeExtracted_components_def)

theorem mergeExtracted_components_fill_if_present_witness:
  "getProp scenario_value ''fullName'' = Some (JStr ''Jane Doe'')
   \<and> getProp scenario_value ''address'' = Some (JStr [])
   \<and> getProp scenario_value ''year'' = Some (JStr ''2019'')
   \<and> getProp scenario_value ''makeModel'' = Some (JStr [])
   \<and> getProp scenario_value ''vin'' = Some (JStr ''1HGBH41JXMN109186'')
   \<and> mergeExtracted_components scenario_value example_form =
       Inr (example_form\<lparr> fullName := JStr ''Jane Doe'', year := JStr ''2019'',
                          vin := JStr ''1HGBH41JXMN109186'' \<rparr>)"
proof -
  have h: "getProp scenario_value ''fullName'' = Some (JStr ''Jane Doe'')
     \<and> getProp scenario_value ''address'' = Some (JStr [])
     \<and> getProp scenario_value ''year'' = Some (JStr ''2019'')
     \<and> getProp scenario_value ''makeModel'' = Some (JStr [])
     \<and> getProp scenario_value ''vin'' = Some (JStr ''1HGBH41JXMN109186'')"
    by (simp add: scenario_value_def)
  from h mergeExtracted_components_fill_if_present
    [where v = scenario_value and prev = example_form and a = "''Jane Doe''" and b = "[]"
       and c = "''2019''" and d = "[]" and e = "''1HGBH41JXMN109186''"]
  have "mergeExtracted_components scenario_value example_form =
         Inr \<lparr> fullName = (if ''Jane Doe'' \<noteq> [] then JStr ''Jane Doe'' else fullName example_form),
               address = (if ([]::string) \<noteq> [] then JStr [] else address example_form),
               year = (if ''2019'' \<noteq> [] then JStr ''2019'' else year example_form),
               makeModel = (if ([]::string) \<noteq> [] then JStr [] else makeModel example_form),
               vin = (if ''1HGBH41JXMN109186'' \<noteq> [] then JStr ''1HGBH41JXMN109186''
                      else vin example_form),
               date = date example_form \<rparr>"
    by blast
  then have "mergeExtracted_components scenario_value example_form =
       Inr (example_form\<lparr> fullName := JStr ''Jane Doe'', year := JStr ''2019'',
                          vin := JStr ''1HGBH41JXMN109186'' \<rparr>)"
    by (simp add: example_form_def)
  with h show ?thesis by blast
qed

text \<open>
  The earlier \<^verbatim>\<open>decodeVIN\<close> makes the same update as the typed one for every response
  that is \<^verbatim>\<open>ok\<close> and has \<^verbatim>\<open>Results\<close>.
\<close>

lemma decodeVIN_components_agrees:
  "decodeVIN_components (Resolved \<lparr>ok = True, body = Some \<lparr>Results = Some rs\<rparr>\<rparr>) v st =
   decodeVIN (Resolved \<lparr>ok = True, body = Some \<lparr>Results = Some rs\<rparr>\<rparr>) v st"
  by (simp add: decodeVIN_components_def decodeVIN_def resultsOf_def Let_def)

text \<open>It has no salvage step: a cleaned text that is not JSON is a failure.\<close>

lemma parseExtracted_components_no_salvage:
  "JSON_parse cleaned = None \<Longrightarrow> parseExtracted_components JSON_parse cleaned = Inl SyntaxError"
  by (simp add: parseExtracted_components_def)

text \<open>Its upload validation refuses the same types and invokes the pipeline once.\<close>

lemma handleFileUpload_components_refuses:
  "\<not> isAllowedMime (fileType f) \<Longrightarrow>
   handleFileUpload_components JSON_parse r (Some f) st =
     ([], Inr (st\<lparr> error := uploadErrorMessage \<rparr>))"
  by (simp add: handleFileUpload_components_def)

lemma handleFileUpload_components_accepts:
  "isAllowedMime (fileType f) \<Longrightarrow>
   fst (handleFileUpload_components JSON_parse r (Some f) st) = [ExtractionInvoked f]"
  by (simp add: handleFileUpload_components_def extractInformation_components_def Let_def)

text \<open>
  Its download name is the prefix, the full name with its runs of white space collapsed,
  and the extension; its button is disabled only by an empty full name.
\<close>

lemma downloadName_components_leading_space:
  "downloadName_components '' Jane Doe'' = ''Authorization_Letter__Jane_Doe.jpg''"
  by code_simp

lemma exportDisabled_components_blank:
  "exportDisabled_components (formData blank_name_state) = False"
  by (simp add: exportDisabled_components_def blank_name_state_def)

end
